theory Spec2Isabelle
  imports Main "HOL-Library.AList"
begin

section \<open>Python values\<close>

text \<open>
  The values \<open>json.loads\<close> produces and the dashboard passes around: \<open>None\<close>, booleans,
  unbounded integers, floats, strings, lists and dicts. A float is kept as sign, mantissa and
  exponent (or an infinity, or NaN); no arithmetic is done on it here. A dict is an association
  list in insertion order; strings are lists of 8-bit code points.
\<close>

datatype pyfloat = PyFinite bool nat int | PyInf bool | PyNaN

datatype jval =
    JNull
  | JBool bool
  | JInt int
  | JFloat pyfloat
  | JStr string
  | JList "jval list"
  | JDict "(string \<times> jval) list"

type_synonym pydict = "(string \<times> jval) list"

text \<open>Python truthiness, as \<open>or\<close>, \<open>not\<close> and \<open>if\<close> test it.\<close>

fun truthy :: "jval \<Rightarrow> bool" where
  "truthy JNull = False"
| "truthy (JBool b) = b"
| "truthy (JInt n) = (n \<noteq> 0)"
| "truthy (JFloat (PyFinite s m e)) = (m \<noteq> 0)"
| "truthy (JFloat (PyInf s)) = True"
| "truthy (JFloat PyNaN) = True"
| "truthy (JStr s) = (s \<noteq> [])"
| "truthy (JList xs) = (xs \<noteq> [])"
| "truthy (JDict kvs) = (kvs \<noteq> [])"

text \<open>\<open>isinstance(v, str)\<close>, and the test for an integer that is not a boolean.\<close>

fun is_str :: "jval \<Rightarrow> bool" where
  "is_str (JStr s) = True"
| "is_str v = False"

fun is_int :: "jval \<Rightarrow> bool" where
  "is_int (JInt n) = True"
| "is_int v = False"

definition py_or :: "jval \<Rightarrow> jval \<Rightarrow> jval" where
  "py_or a b = (if truthy a then a else b)"

text \<open>
  \<open>str(v)\<close>: a string is itself; for every other value \<open>str\<close> is the built-in \<open>repr\<close>,
  which is not part of this repository and is taken as the parameter \<open>repr\<close>.
\<close>

fun py_str :: "(jval \<Rightarrow> string) \<Rightarrow> jval \<Rightarrow> string" where
  "py_str repr (JStr s) = s"
| "py_str repr v = repr v"

text \<open>\<open>d.get(k)\<close>, \<open>d.get(k, default)\<close> and \<open>d[k] = v\<close> on a dict.\<close>

definition dict_get :: "pydict \<Rightarrow> string \<Rightarrow> jval" where
  "dict_get d k = (case map_of d k of Some v \<Rightarrow> v | None \<Rightarrow> JNull)"

definition dict_get_default :: "pydict \<Rightarrow> string \<Rightarrow> jval \<Rightarrow> jval" where
  "dict_get_default d k dflt = (case map_of d k of Some v \<Rightarrow> v | None \<Rightarrow> dflt)"

definition dict_set :: "string \<Rightarrow> jval \<Rightarrow> pydict \<Rightarrow> pydict" where
  "dict_set k v d = AList.update k v d"

subsection \<open>String methods\<close>

text \<open>\<open>str.isspace\<close> on code points below 256.\<close>

definition py_isspace :: "char \<Rightarrow> bool" where
  "py_isspace c = ((of_char c :: nat) \<in> set [9, 10, 11, 12, 13, 28, 29, 30, 31, 32, 133, 160])"

definition strip :: "string \<Rightarrow> string" where
  "strip s = rev (dropWhile py_isspace (rev (dropWhile py_isspace s)))"

text \<open>\<open>str.lower\<close> on code points below 256: A-Z and the Latin-1 capitals move up by 32.\<close>

definition lower_char :: "char \<Rightarrow> char" where
  "lower_char c =
     (let n = (of_char c :: nat)
      in if (65 \<le> n \<and> n \<le> 90) \<or> (192 \<le> n \<and> n \<le> 222 \<and> n \<noteq> 215)
         then char_of (n + 32) else c)"

definition lower :: "string \<Rightarrow> string" where
  "lower s = map lower_char s"

text \<open>\<open>sub in s\<close> for strings: \<open>sub\<close> occurs in \<open>s\<close> as a contiguous block.\<close>

fun starts_with :: "string \<Rightarrow> string \<Rightarrow> bool" where
  "starts_with [] s = True"
| "starts_with (p # ps) [] = False"
| "starts_with (p # ps) (c # cs) = (p = c \<and> starts_with ps cs)"

fun str_contains :: "string \<Rightarrow> string \<Rightarrow> bool" where
  "str_contains sub [] = (sub = [])"
| "str_contains sub (c # cs) = (starts_with sub (c # cs) \<or> str_contains sub cs)"

section \<open>Plan normalisation\<close>

definition valid_ds :: "string list" where
  "valid_ds = [''kpi_totals'', ''kpi_expensesByCategory'', ''kpi_monthly'', ''kpi_daily'',
               ''products'', ''transactions'']"

definition ch_map :: "(string \<times> string) list" where
  "ch_map = [(''bar'', ''bar''), (''bar chart'', ''bar''),
             (''line'', ''line''), (''line chart'', ''line''),
             (''scatter'', ''scatter''), (''scatter plot'', ''scatter''),
             (''pie'', ''pie''), (''pie chart'', ''pie''),
             (''histogram'', ''histogram''),
             (''box'', ''box''), (''box plot'', ''box'')]"

definition chart_types :: "string list" where
  "chart_types = [''bar'', ''line'', ''scatter'', ''pie'', ''histogram'', ''box'']"

text \<open>\<open>ds = str(plan.get("dataset") or "").strip()\<close>\<close>

definition dataset_text :: "(jval \<Rightarrow> string) \<Rightarrow> pydict \<Rightarrow> string" where
  "dataset_text repr plan = strip (py_str repr (py_or (dict_get plan ''dataset'') (JStr '''')))"

text \<open>The dataset name the plan ends up with (lines 252-265 of \<open>_normalize_plan\<close>).\<close>

definition norm_dataset :: "(jval \<Rightarrow> string) \<Rightarrow> pydict \<Rightarrow> string" where
  "norm_dataset repr plan =
     (let ds = dataset_text repr plan
      in if ds \<notin> set valid_ds
         then (if lower ds \<in> set [''kpis'', ''kpi'', ''totals''] then ''kpi_totals''
               else ''kpi_totals'')
         else ds)"

text \<open>\<open>ch = str(plan.get("chart_type") or "").strip().lower()\<close>\<close>

definition chart_text :: "(jval \<Rightarrow> string) \<Rightarrow> pydict \<Rightarrow> string" where
  "chart_text repr plan =
     lower (strip (py_str repr (py_or (dict_get plan ''chart_type'') (JStr ''''))))"

text \<open>The chart type the plan ends up with: \<open>ch_map.get(ch, "bar")\<close> (lines 269-278).\<close>

definition norm_chart_type :: "(jval \<Rightarrow> string) \<Rightarrow> pydict \<Rightarrow> string" where
  "norm_chart_type repr plan =
     (case map_of ch_map (chart_text repr plan) of Some c \<Rightarrow> c | None \<Rightarrow> ''bar'')"

text \<open>One branch of the defaults: \<open>plan["x"] = plan.get("x") or dx\<close>, the same for \<open>y\<close>.\<close>

definition set_axes :: "jval \<Rightarrow> jval \<Rightarrow> pydict \<Rightarrow> pydict" where
  "set_axes dx dy plan =
     (let plan1 = dict_set ''x'' (py_or (dict_get plan ''x'') dx) plan
      in dict_set ''y'' (py_or (dict_get plan1 ''y'') dy) plan1)"

text \<open>The \<open>if\<close>/\<open>elif\<close> chain over the dataset (lines 281-306).\<close>

definition axis_defaults :: "string \<Rightarrow> string \<Rightarrow> pydict \<Rightarrow> pydict" where
  "axis_defaults ds ct plan =
     (if ds = ''kpi_totals'' then set_axes (JStr ''metric'') (JStr ''value'') plan
      else if ds = ''kpi_expensesByCategory'' then set_axes (JStr ''category'') (JStr ''value'') plan
      else if ds = ''kpi_monthly'' then set_axes (JStr ''month'') (JStr ''revenue'') plan
      else if ds = ''kpi_daily'' then set_axes (JStr ''date'') (JStr ''revenue'') plan
      else if ds = ''products'' then
        (if ct \<in> set [''scatter'', ''line'']
         then set_axes (JStr ''price'') (JStr ''expense'') plan
         else set_axes (JStr ''createdAt'') (JStr ''price'') plan)
      else if ds = ''transactions'' then
        (if ct \<in> set [''box'', ''histogram'']
         then set_axes (JStr ''amount'') JNull plan
         else set_axes (JStr ''buyer'') (JStr ''amount'') plan)
      else plan)"

text \<open>The metric names the rationale text asks for (lines 319-331).\<close>

definition reason_text :: "(jval \<Rightarrow> string) \<Rightarrow> pydict \<Rightarrow> string" where
  "reason_text repr plan = lower (py_str repr (dict_get_default plan ''reason'' (JStr '''')))"

definition infer_metrics :: "string \<Rightarrow> jval list" where
  "infer_metrics prompt_text =
     (if str_contains ''revenue'' prompt_text then [JStr ''totalRevenue''] else []) @
     (if str_contains ''expense'' prompt_text then [JStr ''totalExpenses''] else []) @
     (if str_contains ''profit'' prompt_text then [JStr ''totalProfit''] else [])"

text \<open>The safeguard for \<open>kpi_totals\<close> (lines 318-334).\<close>

definition infer_filter :: "(jval \<Rightarrow> string) \<Rightarrow> string \<Rightarrow> pydict \<Rightarrow> pydict" where
  "infer_filter repr ds plan =
     (if ds = ''kpi_totals'' \<and> dict_get plan ''filter'' = JNull
      then (let metrics = infer_metrics (reason_text repr plan)
            in if metrics \<noteq> [] then dict_set ''filter'' (JDict [(''metric'', JList metrics)]) plan
               else plan)
      else plan)"

text \<open>\<open>_normalize_plan\<close>: the plan is updated key by key and returned.\<close>

definition normalize_plan :: "(jval \<Rightarrow> string) \<Rightarrow> pydict \<Rightarrow> pydict" where
  "normalize_plan repr plan =
     (let ds = norm_dataset repr plan;
          plan1 = dict_set ''dataset'' (JStr ds) plan;
          ct = norm_chart_type repr plan1;
          plan2 = dict_set ''chart_type'' (JStr ct) plan1;
          plan3 = axis_defaults ds ct plan2;
          plan4 = dict_set ''filter'' (py_or (dict_get plan3 ''filter'') JNull) plan3;
          plan5 = dict_set ''calculation'' (py_or (dict_get plan4 ''calculation'') JNull) plan4
      in infer_filter repr ds plan5)"

section \<open>The planning oracle\<close>

datatype error = OracleFailure | JSONDecodeError | AttributeError | TypeError | ValueError | NameError

text \<open>
  \<open>_clean_json\<close>. The first substitution removes a leading fence and the ASCII letters
  after it, the second a fence at the very end. The search \<open>\{.*\}\s*$\<close> (with DOTALL)
  succeeds from the first \<open>{\<close> when the last character that is not whitespace is a \<open>}\<close>
  behind it, and then matches up to the end of the text.
\<close>

definition ascii_letter :: "char \<Rightarrow> bool" where
  "ascii_letter c =
     (let n = (of_char c :: nat) in (65 \<le> n \<and> n \<le> 90) \<or> (97 \<le> n \<and> n \<le> 122))"

definition ends_with :: "string \<Rightarrow> string \<Rightarrow> bool" where
  "ends_with suffix s = starts_with (rev suffix) (rev s)"

definition strip_fences :: "string \<Rightarrow> string" where
  "strip_fences raw =
     (if starts_with ''```'' raw
      then (let raw1 = strip (dropWhile ascii_letter (drop 3 raw));
                raw2 = (if ends_with ''```'' raw1 then take (length raw1 - 3) raw1 else raw1)
            in strip raw2)
      else raw)"

definition search_object :: "string \<Rightarrow> string option" where
  "search_object raw =
     (let from_brace = dropWhile (\<lambda>c. c \<noteq> CHR ''{'') raw
      in if from_brace = [] then None
         else (case dropWhile py_isspace (rev (tl from_brace)) of
                 [] \<Rightarrow> None
               | c # cs \<Rightarrow> if c = CHR ''}'' then Some from_brace else None))"

definition clean_json :: "string \<Rightarrow> string" where
  "clean_json raw0 =
     (let raw = strip_fences (strip raw0)
      in case search_object raw of Some m \<Rightarrow> m | None \<Rightarrow> raw)"

text \<open>The plan built in the \<open>except\<close> branch of \<open>llm_plan\<close>.\<close>

definition fallback_plan :: pydict where
  "fallback_plan =
     [(''dataset'', JStr ''kpi_totals''), (''chart_type'', JStr ''bar''),
      (''x'', JStr ''metric''), (''y'', JStr ''value''),
      (''filter'', JNull), (''calculation'', JNull), (''reason'', JStr ''Fallback plan'')]"

text \<open>
  The body of the \<open>try\<close> in \<open>llm_plan\<close>. The chat completion is the parameter \<open>oracle\<close>: it
  gives the message content, or fails. \<open>json.loads\<close> is the parameter \<open>json_loads\<close>, with
  \<open>None\<close> where it raises. A parsed value that is not a dict has no \<open>get\<close>, so
  \<open>_normalize_plan\<close> raises on it.
\<close>

definition llm_plan_try ::
    "(jval \<Rightarrow> string) \<Rightarrow> (string \<Rightarrow> jval option) \<Rightarrow> (string \<Rightarrow> error + string)
      \<Rightarrow> string \<Rightarrow> error + pydict" where
  "llm_plan_try repr json_loads oracle prompt =
     (case oracle prompt of
        Inl e \<Rightarrow> Inl e
      | Inr content \<Rightarrow>
          (case json_loads (clean_json (strip content)) of
             None \<Rightarrow> Inl JSONDecodeError
           | Some (JDict plan) \<Rightarrow> Inr (normalize_plan repr plan)
           | Some _ \<Rightarrow> Inl AttributeError))"

definition llm_plan ::
    "(jval \<Rightarrow> string) \<Rightarrow> (string \<Rightarrow> jval option) \<Rightarrow> (string \<Rightarrow> error + string)
      \<Rightarrow> string \<Rightarrow> pydict" where
  "llm_plan repr json_loads oracle prompt =
     (case llm_plan_try repr json_loads oracle prompt of
        Inr plan \<Rightarrow> plan
      | Inl e \<Rightarrow> normalize_plan repr fallback_plan)"

section \<open>Tables\<close>

text \<open>
  A \<open>pandas.DataFrame\<close>: the column labels in order, and the rows, each holding the cell of
  every column as pandas stores it. A cell a record did not supply is NaN.
\<close>

record dataframe =
  columns :: "string list"
  rows :: "pydict list"

definition cell :: "pydict \<Rightarrow> string \<Rightarrow> jval" where
  "cell r c = (case map_of r c of Some v \<Rightarrow> v | None \<Rightarrow> JFloat PyNaN)"

text \<open>\<open>df.empty\<close>: no rows or no columns.\<close>

definition df_empty :: "dataframe \<Rightarrow> bool" where
  "df_empty df = (rows df = [] \<or> columns df = [])"

text \<open>
  The parts of pandas that are taken as parameters:
  \<^item> \<open>frame_other\<close>: the constructor on data that is not a list of dicts;
  \<^item> \<open>infer_dtype\<close>: the values of a new column after pandas has chosen its dtype (integers
    next to a missing value become floats, and so on);
  \<^item> \<open>isin\<close>: whether \<open>Series.isin\<close> counts a cell among the listed values (it matches
    100 with 100.0 and a missing cell with \<open>None\<close>);
  \<^item> \<open>to_datetime\<close> (\<open>None\<close> where it raises) and \<open>to_numeric(errors="coerce")\<close>;
  \<^item> \<open>pd_eval\<close>: \<open>pd.eval\<close> of an expression over the columns of a frame.
\<close>

datatype evalres = Scalar jval | Series "jval list"

record pandas =
  frame_other :: "jval \<Rightarrow> error + dataframe"
  infer_dtype :: "jval list \<Rightarrow> jval list"
  isin :: "jval \<Rightarrow> jval list \<Rightarrow> bool"
  to_datetime :: "jval list \<Rightarrow> jval list option"
  to_numeric :: "jval list \<Rightarrow> jval list"
  pd_eval :: "string \<Rightarrow> dataframe \<Rightarrow> error + evalres"

text \<open>
  The values of a column as stored: a column of integers only (\<open>int64\<close>) and a column of
  strings only (\<open>object\<close>) keep their values; every other column is left to the dtype
  inference of pandas.
\<close>

definition store_column :: "pandas \<Rightarrow> jval list \<Rightarrow> jval list" where
  "store_column lib vals =
     (if list_all is_int vals \<or> list_all is_str vals then vals else infer_dtype lib vals)"

text \<open>\<open>pd.DataFrame(records)\<close> for a list of dicts: the columns are the keys in the order
  they first appear, each stored with its dtype; an empty list gives a frame with no
  columns.\<close>

definition first_seen :: "string list \<Rightarrow> string list" where
  "first_seen ks = rev (remdups (rev ks))"

definition add_column :: "string \<Rightarrow> jval list \<Rightarrow> pydict list \<Rightarrow> pydict list" where
  "add_column c vals rs = map (\<lambda>(r, v). r @ [(c, v)]) (zip rs vals)"

definition frame_of_records :: "pandas \<Rightarrow> pydict list \<Rightarrow> dataframe" where
  "frame_of_records lib recs =
     (let cols = first_seen (concat (map (map fst) recs))
      in \<lparr>columns = cols,
          rows = fold (\<lambda>c rs. add_column c (store_column lib (map (\<lambda>r. cell r c) recs)) rs)
                   cols (map (\<lambda>r. []) recs)\<rparr>)"

text \<open>\<open>pd.DataFrame(columns=cols)\<close>: the headers and no rows.\<close>

definition frame_of_columns :: "string list \<Rightarrow> dataframe" where
  "frame_of_columns cols = \<lparr>columns = cols, rows = []\<rparr>"

text \<open>\<open>df[c]\<close> read as a list, and \<open>df[c] = values\<close>.\<close>

definition column_values :: "dataframe \<Rightarrow> string \<Rightarrow> jval list" where
  "column_values df c = map (\<lambda>r. cell r c) (rows df)"

definition set_column :: "string \<Rightarrow> jval list \<Rightarrow> dataframe \<Rightarrow> dataframe" where
  "set_column c vals df =
     \<lparr>columns = (if c \<in> set (columns df) then columns df else columns df @ [c]),
      rows = map (\<lambda>(r, v). AList.update c v r) (zip (rows df) vals)\<rparr>"

fun as_records :: "jval list \<Rightarrow> pydict list option" where
  "as_records [] = Some []"
| "as_records (JDict kvs # items) =
     (case as_records items of Some recs \<Rightarrow> Some (kvs # recs) | None \<Rightarrow> None)"
| "as_records (v # items) = None"

definition pd_DataFrame :: "pandas \<Rightarrow> jval \<Rightarrow> error + dataframe" where
  "pd_DataFrame lib data =
     (case data of
        JList items \<Rightarrow>
          (case as_records items of
             Some recs \<Rightarrow> Inr (frame_of_records lib recs)
           | None \<Rightarrow> frame_other lib data)
      | _ \<Rightarrow> frame_other lib data)"

definition fillna0 :: "jval \<Rightarrow> jval" where
  "fillna0 v = (if v = JFloat PyNaN \<or> v = JNull then JInt 0 else v)"

section \<open>Melting the KPI document\<close>

definition totals_frame :: "pandas \<Rightarrow> pydict \<Rightarrow> dataframe" where
  "totals_frame lib doc = frame_of_records lib
     [[(''metric'', JStr ''totalRevenue''),
       (''value'', dict_get_default doc ''totalRevenue'' (JInt 0))],
      [(''metric'', JStr ''totalExpenses''),
       (''value'', dict_get_default doc ''totalExpenses'' (JInt 0))],
      [(''metric'', JStr ''totalProfit''),
       (''value'', dict_get_default doc ''totalProfit'' (JInt 0))]]"

text \<open>\<open>exp_cat_dict.items()\<close> needs a dict; a truthy value of another type raises.\<close>

definition exp_frame :: "pandas \<Rightarrow> pydict \<Rightarrow> error + dataframe" where
  "exp_frame lib doc =
     (case py_or (dict_get_default doc ''expensesByCategory'' (JDict [])) (JDict []) of
        JDict kvs \<Rightarrow>
          Inr (frame_of_records lib (map (\<lambda>(k, v). [(''category'', JStr k), (''value'', v)]) kvs))
      | _ \<Rightarrow> Inl AttributeError)"

definition normalize_monthly :: "(jval \<Rightarrow> string) \<Rightarrow> dataframe \<Rightarrow> dataframe" where
  "normalize_monthly repr df =
     (if \<not> df_empty df \<and> ''month'' \<in> set (columns df)
      then set_column ''month'' (map (\<lambda>v. JStr (py_str repr v)) (column_values df ''month'')) df
      else df)"

definition coerce_numeric :: "pandas \<Rightarrow> string \<Rightarrow> dataframe \<Rightarrow> dataframe" where
  "coerce_numeric lib c df =
     (if c \<in> set (columns df)
      then set_column c (map fillna0 (to_numeric lib (column_values df c))) df
      else df)"

definition normalize_daily :: "pandas \<Rightarrow> dataframe \<Rightarrow> dataframe" where
  "normalize_daily lib df =
     (if \<not> df_empty df \<and> ''date'' \<in> set (columns df)
      then (let df1 = (case to_datetime lib (column_values df ''date'') of
                         Some ds \<Rightarrow> set_column ''date'' ds df
                       | None \<Rightarrow> df)
            in coerce_numeric lib ''expenses'' (coerce_numeric lib ''revenue'' df1))
      else df)"

text \<open>\<open>melt_kpi_document\<close>: the four frames under their names.\<close>

definition melt_kpi_document ::
    "pandas \<Rightarrow> (jval \<Rightarrow> string) \<Rightarrow> pydict \<Rightarrow> error + (string \<times> dataframe) list" where
  "melt_kpi_document lib repr doc =
     (let totals_df = totals_frame lib doc
      in case exp_frame lib doc of
           Inl e \<Rightarrow> Inl e
         | Inr exp_df \<Rightarrow>
            (case pd_DataFrame lib
                    (py_or (dict_get_default doc ''monthlyData'' (JList [])) (JList [])) of
               Inl e \<Rightarrow> Inl e
             | Inr monthly_df \<Rightarrow>
                (case pd_DataFrame lib
                        (py_or (dict_get_default doc ''dailyData'' (JList [])) (JList [])) of
                   Inl e \<Rightarrow> Inl e
                 | Inr daily_df \<Rightarrow>
                     Inr [(''kpi_totals'', totals_df),
                          (''kpi_expensesByCategory'', exp_df),
                          (''kpi_monthly'', normalize_monthly repr monthly_df),
                          (''kpi_daily'', normalize_daily lib daily_df)])))"

text \<open>The frames \<open>fetch_kpi_frames\<close> returns when there is no KPI document.\<close>

definition empty_kpi_frames :: "(string \<times> dataframe) list" where
  "empty_kpi_frames =
     [(''kpi_totals'', frame_of_columns [''metric'', ''value'']),
      (''kpi_expensesByCategory'', frame_of_columns [''category'', ''value'']),
      (''kpi_monthly'', frame_of_columns [''month'', ''revenue'', ''expenses'',
                                          ''operationalExpenses'', ''nonOperationalExpenses'']),
      (''kpi_daily'', frame_of_columns [''date'', ''revenue'', ''expenses''])]"

text \<open>\<open>fetch_kpi_frames\<close> on the document \<open>find_one\<close> gave (\<open>None\<close>, or a dict).\<close>

definition fetch_kpi_frames ::
    "pandas \<Rightarrow> (jval \<Rightarrow> string) \<Rightarrow> pydict option \<Rightarrow> error + (string \<times> dataframe) list" where
  "fetch_kpi_frames lib repr found =
     (case found of
        None \<Rightarrow> Inr empty_kpi_frames
      | Some doc \<Rightarrow> if doc = [] then Inr empty_kpi_frames else melt_kpi_document lib repr doc)"

section \<open>Execution: filter and calculation\<close>

text \<open>One turn of the loop of \<open>apply_filter\<close>: \<open>df = df[df[col].isin(vals)]\<close> when \<open>col\<close>
  is a column and \<open>vals\<close> a list.\<close>

definition filter_step :: "pandas \<Rightarrow> string \<times> jval \<Rightarrow> dataframe \<Rightarrow> dataframe" where
  "filter_step lib kv df =
     (case kv of (col, vals) \<Rightarrow>
        (if col \<in> set (columns df)
         then (case vals of
                 JList vs \<Rightarrow> df\<lparr>rows := filter (\<lambda>r. isin lib (cell r col) vs) (rows df)\<rparr>
               | _ \<Rightarrow> df)
         else df))"

text \<open>\<open>apply_filter\<close>. A truthy filter that is not a dict has no \<open>items\<close>.\<close>

definition apply_filter :: "pandas \<Rightarrow> dataframe \<Rightarrow> pydict \<Rightarrow> error + dataframe" where
  "apply_filter lib df plan =
     (let filt = dict_get plan ''filter''
      in if \<not> truthy filt \<or> df_empty df then Inr df
         else (case filt of
                 JDict kvs \<Rightarrow> Inr (fold (filter_step lib) kvs df)
               | _ \<Rightarrow> Inl AttributeError))"

text \<open>\<open>"=" not in calc\<close>: a substring test on a string, a membership test on a list or on
  the keys of a dict, a \<open>TypeError\<close> on the other values.\<close>

fun lacks_eq :: "jval \<Rightarrow> error + bool" where
  "lacks_eq (JStr s) = Inr (CHR ''='' \<notin> set s)"
| "lacks_eq (JList xs) = Inr (JStr ''='' \<notin> set xs)"
| "lacks_eq (JDict kvs) = Inr (''='' \<notin> fst ` set kvs)"
| "lacks_eq v = Inl TypeError"

text \<open>\<open>df[lhs] = value\<close>: a scalar fills the column, a series must have one value a row.\<close>

definition assign_column :: "string \<Rightarrow> evalres \<Rightarrow> dataframe \<Rightarrow> error + dataframe" where
  "assign_column lhs res df =
     (case res of
        Scalar v \<Rightarrow> Inr (set_column lhs (replicate (length (rows df)) v) df)
      | Series vs \<Rightarrow> if length vs = length (rows df) then Inr (set_column lhs vs df)
                     else Inl ValueError)"

text \<open>The \<open>try\<close> of \<open>apply_calculation\<close> on \<open>calc.split("=", 1)\<close>, both parts stripped.\<close>

definition calc_lhs :: "string \<Rightarrow> string" where
  "calc_lhs calc = strip (takeWhile (\<lambda>c. c \<noteq> CHR ''='') calc)"

definition calc_rhs :: "string \<Rightarrow> string" where
  "calc_rhs calc = strip (drop 1 (dropWhile (\<lambda>c. c \<noteq> CHR ''='') calc))"

definition calc_try :: "pandas \<Rightarrow> string \<Rightarrow> dataframe \<Rightarrow> error + dataframe" where
  "calc_try lib calc df =
     (case pd_eval lib (calc_rhs calc) df of
        Inl e \<Rightarrow> Inl e
      | Inr res \<Rightarrow> assign_column (calc_lhs calc) res df)"

definition apply_calculation :: "pandas \<Rightarrow> dataframe \<Rightarrow> pydict \<Rightarrow> error + dataframe" where
  "apply_calculation lib df plan =
     (let calc = dict_get plan ''calculation''
      in if \<not> truthy calc then Inr df
         else (case lacks_eq calc of
                 Inl e \<Rightarrow> Inl e
               | Inr no_eq \<Rightarrow>
                   if no_eq \<or> df_empty df then Inr df
                   else (case calc of
                           JStr s \<Rightarrow>
                             (case calc_try lib s df of Inr df' \<Rightarrow> Inr df' | Inl e \<Rightarrow> Inr df)
                         | _ \<Rightarrow> Inl AttributeError)))"

section \<open>Price suggestion\<close>

text \<open>
  \<open>Product\<close> and \<open>Suggestion\<close>. Prices are floats, of a type \<open>'f\<close> left open; the float
  operations and the regression path (fit, \<open>linspace\<close>, \<open>argmax\<close>, rounding) are parameters.
\<close>

record 'f product =
  price :: 'f
  expense :: 'f
  sales_volume :: int

record 'f suggestion =
  suggested_price :: 'f
  predicted_sales :: int
  expected_revenue :: 'f

record 'f numerics =
  add_int :: "'f \<Rightarrow> int \<Rightarrow> 'f"
  mul_int :: "'f \<Rightarrow> int \<Rightarrow> 'f"
  regression :: "'f list \<Rightarrow> int list \<Rightarrow> 'f suggestion"

text \<open>\<open>Series.nunique()\<close> on integers: the number of distinct values.\<close>

definition nunique :: "int list \<Rightarrow> nat" where
  "nunique xs = length (remdups xs)"

definition synthetic_prices :: "'f numerics \<Rightarrow> 'f product \<Rightarrow> 'f list" where
  "synthetic_prices num p = [add_int num (price p) (- 5), price p, add_int num (price p) 5]"

definition synthetic_sales :: "'f product \<Rightarrow> int list" where
  "synthetic_sales p = [sales_volume p + 5, sales_volume p, sales_volume p - 5]"

definition suggest_one :: "'f numerics \<Rightarrow> 'f product \<Rightarrow> 'f suggestion" where
  "suggest_one num p =
     (if nunique (synthetic_sales p) < 2
      then \<lparr>suggested_price = price p, predicted_sales = sales_volume p,
            expected_revenue = mul_int num (price p) (sales_volume p)\<rparr>
      else regression num (synthetic_prices num p) (synthetic_sales p))"

definition suggest_price :: "'f numerics \<Rightarrow> 'f product list \<Rightarrow> 'f suggestion list" where
  "suggest_price num products = map (suggest_one num) products"

section \<open>Sample parameters\<close>

text \<open>
  An instance of \<open>repr\<close> for running the definitions on concrete plans: Python's text for
  \<open>None\<close>, booleans and integers, a fixed text for the other values.
\<close>

fun nat_digits :: "nat \<Rightarrow> string" where
  "nat_digits n = (if n < 10 then [char_of (48 + n)]
                   else nat_digits (n div 10) @ [char_of (48 + n mod 10)])"

declare nat_digits.simps [simp del]

fun sample_repr :: "jval \<Rightarrow> string" where
  "sample_repr JNull = ''None''"
| "sample_repr (JBool b) = (if b then ''True'' else ''False'')"
| "sample_repr (JInt n) =
     (if n < 0 then CHR ''-'' # nat_digits (nat (- n)) else nat_digits (nat n))"
| "sample_repr v = ''<object>''"

section \<open>Auxiliary definitions\<close>

text \<open>
  The default of \<open>x\<close> as the specification words it: a fixed name for each KPI dataset,
  \<open>price\<close> or \<open>createdAt\<close> on \<open>products\<close>, \<open>amount\<close> or \<open>buyer\<close> on \<open>transactions\<close>
  (the last branch). It is compared below with \<open>axis_defaults\<close>.
\<close>

definition spec_default_x :: "string \<Rightarrow> string \<Rightarrow> string" where
  "spec_default_x ds ct =
     (if ds = ''kpi_totals'' then ''metric''
      else if ds = ''kpi_expensesByCategory'' then ''category''
      else if ds = ''kpi_monthly'' then ''month''
      else if ds = ''kpi_daily'' then ''date''
      else if ds = ''products'' then (if ct = ''scatter'' \<or> ct = ''line'' then ''price'' else ''createdAt'')
      else (if ct = ''box'' \<or> ct = ''histogram'' then ''amount'' else ''buyer''))"

text \<open>The plan just before the safeguard.\<close>

definition before_infer :: "(jval \<Rightarrow> string) \<Rightarrow> pydict \<Rightarrow> pydict" where
  "before_infer repr plan =
     (let ds = norm_dataset repr plan;
          plan1 = dict_set ''dataset'' (JStr ds) plan;
          ct = norm_chart_type repr plan1;
          plan2 = dict_set ''chart_type'' (JStr ct) plan1;
          plan3 = axis_defaults ds ct plan2;
          plan4 = dict_set ''filter'' (py_or (dict_get plan3 ''filter'') JNull) plan3
      in dict_set ''calculation'' (py_or (dict_get plan4 ''calculation'') JNull) plan4)"

text \<open>Candidate plans used to run the normaliser.\<close>

definition revenue_expense_plan :: pydict where
  "revenue_expense_plan =
     [(''dataset'', JStr ''kpi_totals''), (''chart_type'', JStr ''bar chart''),
      (''reason'', JStr ''Comparing Revenue and Expenses'')]"

definition no_keyword_plan :: pydict where
  "no_keyword_plan = [(''dataset'', JStr ''kpis''), (''reason'', JStr ''Overview of the totals'')]"

text \<open>The pair of defaults the chain of \<open>axis_defaults\<close> selects, if any.\<close>

definition axis_pair :: "string \<Rightarrow> string \<Rightarrow> (jval \<times> jval) option" where
  "axis_pair ds ct =
     (if ds = ''kpi_totals'' then Some (JStr ''metric'', JStr ''value'')
      else if ds = ''kpi_expensesByCategory'' then Some (JStr ''category'', JStr ''value'')
      else if ds = ''kpi_monthly'' then Some (JStr ''month'', JStr ''revenue'')
      else if ds = ''kpi_daily'' then Some (JStr ''date'', JStr ''revenue'')
      else if ds = ''products'' then
        (if ct \<in> set [''scatter'', ''line''] then Some (JStr ''price'', JStr ''expense'')
         else Some (JStr ''createdAt'', JStr ''price''))
      else if ds = ''transactions'' then
        (if ct \<in> set [''box'', ''histogram''] then Some (JStr ''amount'', JNull)
         else Some (JStr ''buyer'', JStr ''amount''))
      else None)"

definition filtered_plan :: pydict where
  "filtered_plan =
     [(''dataset'', JStr ''kpi_totals''), (''filter'', JDict [(''metric'', JList [JStr ''totalProfit''])]),
      (''reason'', JStr ''revenue against expenses'')]"

definition falsy_filter_plan :: pydict where
  "falsy_filter_plan =
     [(''dataset'', JStr ''kpi_totals''), (''filter'', JBool False),
      (''reason'', JStr ''Expenses eat the profit'')]"

definition empty_filter_plan :: pydict where
  "empty_filter_plan =
     [(''dataset'', JStr ''kpi_totals''), (''filter'', JDict []), (''reason'', JStr ''revenue'')]"

text \<open>Oracles and parsers used to run \<open>llm_plan\<close>.\<close>

definition failing_oracle :: "string \<Rightarrow> error + string" where
  "failing_oracle prompt = Inl OracleFailure"

definition prose_oracle :: "string \<Rightarrow> error + string" where
  "prose_oracle prompt = Inr ''Sorry, I cannot help.''"

definition list_oracle :: "string \<Rightarrow> error + string" where
  "list_oracle prompt = Inr ''[1]''"

definition sample_loads :: "string \<Rightarrow> jval option" where
  "sample_loads s = (if s = ''[1]'' then Some (JList [JInt 1]) else None)"

text \<open>The KPI document of the round-trip property: the three totals, nothing else.\<close>

definition sample_kpi_doc :: pydict where
  "sample_kpi_doc =
     [(''totalRevenue'', JInt 100), (''totalExpenses'', JInt 40), (''totalProfit'', JInt 60),
      (''expensesByCategory'', JDict []), (''monthlyData'', JList []), (''dailyData'', JList [])]"

text \<open>
  The row condition in the words of the specification: for every field of the filter that
  is a column (and gives a list), the row's value of that column is among the values of
  the list, as \<open>isin\<close> counts it.
\<close>

definition keeps_row :: "pandas \<Rightarrow> string list \<Rightarrow> pydict \<Rightarrow> pydict \<Rightarrow> bool" where
  "keeps_row lib cols kvs r =
     list_all (\<lambda>(c, v). c \<in> set cols \<longrightarrow>
                 (case v of JList vs \<Rightarrow> isin lib (cell r c) vs | _ \<Rightarrow> True)) kvs"

text \<open>
  An instance of the pandas parameters, a table and plans used to run the execution stage:
  columns keep their values, \<open>isin\<close> compares by equality, and \<open>pd.eval\<close> knows column
  names only.
\<close>

definition sample_pandas :: pandas where
  "sample_pandas =
     \<lparr>frame_other = (\<lambda>data. Inl TypeError),
      infer_dtype = (\<lambda>vs. vs),
      isin = (\<lambda>v vs. v \<in> set vs),
      to_datetime = (\<lambda>vs. None),
      to_numeric = (\<lambda>vs. vs),
      pd_eval = (\<lambda>rhs df. if rhs \<in> set (columns df) then Inr (Series (column_values df rhs))
                           else Inl NameError)\<rparr>"

definition sample_totals :: dataframe where
  "sample_totals = totals_frame sample_pandas sample_kpi_doc"

definition sample_filter_plan :: pydict where
  "sample_filter_plan =
     [(''filter'', JDict [(''metric'', JList [JStr ''totalRevenue'', JStr ''totalExpenses'']),
                          (''region'', JList [JStr ''north''])])]"

text \<open>Float operations used to run \<open>suggest_price\<close>, with integers standing for prices.\<close>

definition sample_numerics :: "int numerics" where
  "sample_numerics =
     \<lparr>add_int = (\<lambda>a b. a + b), mul_int = (\<lambda>a b. a * b),
      regression = (\<lambda>prices sales. \<lparr>suggested_price = hd prices, predicted_sales = hd sales,
                                       expected_revenue = hd prices * hd sales\<rparr>)\<rparr>"

section \<open>Properties of plan normalisation\<close>

subsection \<open>Dictionary lemmas\<close>

lemma map_of_dict_set: "map_of (dict_set k v d) = (map_of d)(k \<mapsto> v)"
  by (simp add: dict_set_def update_conv')

lemma dict_set_same: "map_of d k = Some v \<Longrightarrow> dict_set k v d = d"
  by (simp add: dict_set_def update_triv)

lemma dict_get_set: "dict_get (dict_set k v d) k' = (if k' = k then v else dict_get d k')"
  by (simp add: dict_get_def map_of_dict_set)

lemma dict_get_default_set:
  "dict_get_default (dict_set k v d) k' x = (if k' = k then v else dict_get_default d k' x)"
  by (simp add: dict_get_default_def map_of_dict_set)

lemma map_of_set_axes:
  "map_of (set_axes dx dy p) k =
     (if k = ''y'' then Some (py_or (dict_get p ''y'') dy)
      else if k = ''x'' then Some (py_or (dict_get p ''x'') dx) else map_of p k)"
  by (simp add: set_axes_def Let_def map_of_dict_set dict_get_set)

lemma map_of_axis_defaults:
  "k \<noteq> ''x'' \<Longrightarrow> k \<noteq> ''y'' \<Longrightarrow> map_of (axis_defaults ds ct p) k = map_of p k"
  by (simp add: axis_defaults_def map_of_set_axes)

lemma map_of_infer_filter:
  "k \<noteq> ''filter'' \<Longrightarrow> map_of (infer_filter repr ds p) k = map_of p k"
  by (simp add: infer_filter_def Let_def map_of_dict_set)

lemma dict_get_cong: "map_of d k = map_of d' k \<Longrightarrow> dict_get d k = dict_get d' k"
  by (simp add: dict_get_def)

lemma dict_get_Some: "map_of d k = Some v \<Longrightarrow> dict_get d k = v"
  by (simp add: dict_get_def)

subsection \<open>Dataset and chart type\<close>

lemma map_of_norm_dataset:
  "map_of (normalize_plan repr plan) ''dataset'' = Some (JStr (norm_dataset repr plan))"
  by (simp add: normalize_plan_def Let_def map_of_infer_filter map_of_dict_set map_of_axis_defaults)

lemma chart_text_dict_set:
  "k \<noteq> ''chart_type'' \<Longrightarrow> chart_text repr (dict_set k v p) = chart_text repr p"
  by (simp add: chart_text_def dict_get_set)

lemma norm_chart_type_dict_set:
  "k \<noteq> ''chart_type'' \<Longrightarrow> norm_chart_type repr (dict_set k v p) = norm_chart_type repr p"
  by (simp add: norm_chart_type_def chart_text_dict_set)

lemma map_of_norm_chart_type:
  "map_of (normalize_plan repr plan) ''chart_type'' = Some (JStr (norm_chart_type repr plan))"
  by (simp add: normalize_plan_def Let_def map_of_infer_filter map_of_dict_set map_of_axis_defaults
      norm_chart_type_dict_set)

lemma norm_dataset_valid: "norm_dataset repr plan \<in> set valid_ds"
  by (simp add: norm_dataset_def Let_def valid_ds_def)

lemma norm_chart_type_valid: "norm_chart_type repr plan \<in> set chart_types"
proof (cases "map_of ch_map (chart_text repr plan)")
  case None
  then show ?thesis by (simp add: norm_chart_type_def chart_types_def)
next
  case (Some c)
  then have "(chart_text repr plan, c) \<in> set ch_map" by (rule map_of_SomeD)
  then have "c \<in> set chart_types" by (auto simp: ch_map_def chart_types_def)
  with Some show ?thesis by (simp add: norm_chart_type_def)
qed

text \<open>
  Claim C1, as amended. When the dataset value, turned into text by \<open>str\<close> and stripped of
  surrounding whitespace, is not one of the six valid names, the normalised plan has dataset
  \<open>kpi_totals\<close>; the same holds when the value is absent, null or otherwise falsy. When
  that stripped text is one of the six names, the normalised plan has it as its dataset.
\<close>

theorem normalize_dataset_repair:
  "(dataset_text repr plan \<notin> set valid_ds \<longrightarrow>
      dict_get (normalize_plan repr plan) ''dataset'' = JStr ''kpi_totals'') \<and>
   (\<not> truthy (dict_get plan ''dataset'') \<longrightarrow>
      dict_get (normalize_plan repr plan) ''dataset'' = JStr ''kpi_totals'') \<and>
   (dataset_text repr plan \<in> set valid_ds \<longrightarrow>
      dict_get (normalize_plan repr plan) ''dataset'' = JStr (dataset_text repr plan))"
proof -
  have field: "dict_get (normalize_plan repr plan) ''dataset'' = JStr (norm_dataset repr plan)"
    by (rule dict_get_Some [OF map_of_norm_dataset])
  have empty: "dataset_text repr plan = []" if "\<not> truthy (dict_get plan ''dataset'')"
    using that by (simp add: dataset_text_def py_or_def strip_def)
  have "norm_dataset repr plan = ''kpi_totals''" if "dataset_text repr plan \<notin> set valid_ds"
    using that by (simp add: norm_dataset_def Let_def)
  moreover have "norm_dataset repr plan = ''kpi_totals''" if "\<not> truthy (dict_get plan ''dataset'')"
    using empty [OF that] by (simp add: norm_dataset_def Let_def valid_ds_def)
  moreover have "norm_dataset repr plan = dataset_text repr plan"
    if "dataset_text repr plan \<in> set valid_ds"
    using that by (simp add: norm_dataset_def Let_def)
  ultimately show ?thesis using field by simp
qed

theorem normalize_dataset_repair_witness:
  "dataset_text sample_repr [(''dataset'', JStr ''kpis'')] \<notin> set valid_ds \<and>
   dict_get (normalize_plan sample_repr [(''dataset'', JStr ''kpis'')]) ''dataset'' = JStr ''kpi_totals'' \<and>
   \<not> truthy (dict_get [(''dataset'', JNull)] ''dataset'') \<and>
   dict_get (normalize_plan sample_repr [(''dataset'', JNull)]) ''dataset'' = JStr ''kpi_totals'' \<and>
   dataset_text sample_repr [(''dataset'', JStr ''  kpi_daily '')] \<in> set valid_ds \<and>
   dict_get (normalize_plan sample_repr [(''dataset'', JStr ''  kpi_daily '')]) ''dataset''
     = JStr ''kpi_daily''"
proof -
  have h1: "dataset_text sample_repr [(''dataset'', JStr ''kpis'')] \<notin> set valid_ds"
    by code_simp
  have h2: "\<not> truthy (dict_get [(''dataset'', JNull)] ''dataset'')"
    by code_simp
  have h3: "dataset_text sample_repr [(''dataset'', JStr ''  kpi_daily '')] \<in> set valid_ds"
    by code_simp
  have v3: "dataset_text sample_repr [(''dataset'', JStr ''  kpi_daily '')] = ''kpi_daily''"
    by code_simp
  from normalize_dataset_repair [of sample_repr "[(''dataset'', JStr ''kpis'')]"] h1
  have a: "dict_get (normalize_plan sample_repr [(''dataset'', JStr ''kpis'')]) ''dataset'' = JStr ''kpi_totals''"
    by blast
  from normalize_dataset_repair [of sample_repr "[(''dataset'', JNull)]"] h2
  have b: "dict_get (normalize_plan sample_repr [(''dataset'', JNull)]) ''dataset'' = JStr ''kpi_totals''"
    by blast
  from normalize_dataset_repair [of sample_repr "[(''dataset'', JStr ''  kpi_daily '')]"] h3 v3
  have c: "dict_get (normalize_plan sample_repr [(''dataset'', JStr ''  kpi_daily '')]) ''dataset''
     = JStr ''kpi_daily''"
    by simp
  show ?thesis using a b c h1 h2 h3 by blast
qed

theorem dataset_padded_counterexample:
  "'' products'' \<notin> set valid_ds \<and>
   dict_get [(''dataset'', JStr '' products'')] ''dataset'' = JStr '' products'' \<and>
   dict_get (normalize_plan sample_repr [(''dataset'', JStr '' products'')]) ''dataset''
     = JStr ''products'' \<and>
   JStr ''products'' \<noteq> JStr ''kpi_totals''"
  by code_simp

text \<open>
  Claim C2, as amended. The chart type of the normalised plan is the entry of the synonym
  table for the supplied value, stripped of surrounding whitespace and lower-cased; a value
  with no entry (an absent or null one among them) gives \<open>bar\<close>; the result is always one of
  the six chart types.
\<close>

theorem normalize_chart_type_repair:
  "dict_get (normalize_plan repr plan) ''chart_type''
     = JStr (case map_of ch_map (chart_text repr plan) of Some c \<Rightarrow> c | None \<Rightarrow> ''bar'') \<and>
   (map_of ch_map (chart_text repr plan) = None \<longrightarrow>
      dict_get (normalize_plan repr plan) ''chart_type'' = JStr ''bar'') \<and>
   (\<not> truthy (dict_get plan ''chart_type'') \<longrightarrow>
      dict_get (normalize_plan repr plan) ''chart_type'' = JStr ''bar'') \<and>
   (\<exists>c \<in> set chart_types. dict_get (normalize_plan repr plan) ''chart_type'' = JStr c)"
proof -
  have field: "dict_get (normalize_plan repr plan) ''chart_type'' = JStr (norm_chart_type repr plan)"
    by (rule dict_get_Some [OF map_of_norm_chart_type])
  have "chart_text repr plan = []" if "\<not> truthy (dict_get plan ''chart_type'')"
    using that by (simp add: chart_text_def py_or_def strip_def lower_def)
  then have "norm_chart_type repr plan = ''bar''" if "\<not> truthy (dict_get plan ''chart_type'')"
    using that by (simp add: norm_chart_type_def ch_map_def)
  then show ?thesis
    using field norm_chart_type_valid [of repr plan] by (simp add: norm_chart_type_def)
qed

theorem normalize_chart_type_repair_witness:
  "dict_get (normalize_plan sample_repr [(''chart_type'', JStr ''Scatter Plot'')]) ''chart_type''
     = JStr ''scatter'' \<and>
   map_of ch_map (chart_text sample_repr [(''chart_type'', JStr ''donut'')]) = None \<and>
   dict_get (normalize_plan sample_repr [(''chart_type'', JStr ''donut'')]) ''chart_type'' = JStr ''bar'' \<and>
   \<not> truthy (dict_get [] ''chart_type'') \<and>
   dict_get (normalize_plan sample_repr []) ''chart_type'' = JStr ''bar'' \<and>
   ''bar'' \<in> set chart_types"
proof -
  have h1: "map_of ch_map (chart_text sample_repr [(''chart_type'', JStr ''donut'')]) = None"
    by code_simp
  have h2: "\<not> truthy (dict_get [] ''chart_type'')"
    by code_simp
  have h3: "map_of ch_map (chart_text sample_repr [(''chart_type'', JStr ''Scatter Plot'')]) = Some ''scatter''"
    by code_simp
  have h4: "''bar'' \<in> set chart_types" by code_simp
  from normalize_chart_type_repair [of sample_repr "[(''chart_type'', JStr ''Scatter Plot'')]"] h3
  have a: "dict_get (normalize_plan sample_repr [(''chart_type'', JStr ''Scatter Plot'')]) ''chart_type''
     = JStr ''scatter''" by simp
  from normalize_chart_type_repair [of sample_repr "[(''chart_type'', JStr ''donut'')]"] h1
  have b: "dict_get (normalize_plan sample_repr [(''chart_type'', JStr ''donut'')]) ''chart_type'' = JStr ''bar''"
    by blast
  from normalize_chart_type_repair [of sample_repr "[]"] h2
  have c: "dict_get (normalize_plan sample_repr []) ''chart_type'' = JStr ''bar''"
    by blast
  show ?thesis using a b c h1 h2 h4 by blast
qed

theorem chart_type_padded_counterexample:
  "map_of ch_map (lower '' pie'') = None \<and>
   dict_get (normalize_plan sample_repr [(''chart_type'', JStr '' pie'')]) ''chart_type''
     = JStr ''pie'' \<and>
   JStr ''pie'' \<noteq> JStr ''bar''"
  by code_simp

subsection \<open>The inferred filter\<close>

lemma reason_text_dict_set:
  "k \<noteq> ''reason'' \<Longrightarrow> reason_text repr (dict_set k v p) = reason_text repr p"
  by (simp add: reason_text_def dict_get_default_set)

lemma dict_get_default_cong:
  "map_of d k = map_of d' k \<Longrightarrow> dict_get_default d k x = dict_get_default d' k x"
  by (simp add: dict_get_default_def)

lemma reason_text_cong:
  "map_of d ''reason'' = map_of d' ''reason'' \<Longrightarrow> reason_text repr d = reason_text repr d'"
  by (simp add: reason_text_def dict_get_default_def)

lemma reason_text_axis_defaults:
  "reason_text repr (axis_defaults ds ct p) = reason_text repr p"
  by (rule reason_text_cong) (simp add: map_of_axis_defaults)

lemma normalize_plan_before:
  "normalize_plan repr plan = infer_filter repr (norm_dataset repr plan) (before_infer repr plan)"
  by (simp add: normalize_plan_def before_infer_def Let_def)

lemma before_infer_filter:
  "map_of (before_infer repr plan) ''filter'' = Some (py_or (dict_get plan ''filter'') JNull)"
  by (simp add: before_infer_def Let_def map_of_dict_set dict_get_set
      dict_get_cong [OF map_of_axis_defaults])

lemma before_infer_reason:
  "reason_text repr (before_infer repr plan) = reason_text repr plan"
  by (simp add: before_infer_def Let_def reason_text_dict_set reason_text_axis_defaults)

lemma py_or_null: "py_or v JNull = JNull \<longleftrightarrow> \<not> truthy v"
  by (cases v) (auto simp: py_or_def)

lemma filter_field:
  "dict_get (normalize_plan repr plan) ''filter'' =
     (if norm_dataset repr plan = ''kpi_totals'' \<and> \<not> truthy (dict_get plan ''filter'')
         \<and> infer_metrics (reason_text repr plan) \<noteq> []
      then JDict [(''metric'', JList (infer_metrics (reason_text repr plan)))]
      else py_or (dict_get plan ''filter'') JNull)"
  by (simp add: normalize_plan_before infer_filter_def Let_def dict_get_set
      dict_get_Some [OF before_infer_filter] before_infer_reason py_or_null)

text \<open>
  Claim C3. For a plan whose dataset normalises to \<open>kpi_totals\<close> and that has no filter:
  when the lower-cased rationale contains "revenue" and "expense" but not "profit", the
  filter becomes exactly \<open>{metric: [totalRevenue, totalExpenses]}\<close>; when it contains none of
  the three keywords, the filter stays null.
\<close>

theorem infer_filter_from_reason:
  assumes "norm_dataset repr plan = ''kpi_totals''"
    and "\<not> truthy (dict_get plan ''filter'')"
  shows "(str_contains ''revenue'' (reason_text repr plan) \<and>
          str_contains ''expense'' (reason_text repr plan) \<and>
          \<not> str_contains ''profit'' (reason_text repr plan) \<longrightarrow>
            dict_get (normalize_plan repr plan) ''filter''
              = JDict [(''metric'', JList [JStr ''totalRevenue'', JStr ''totalExpenses''])]) \<and>
         (\<not> str_contains ''revenue'' (reason_text repr plan) \<and>
          \<not> str_contains ''expense'' (reason_text repr plan) \<and>
          \<not> str_contains ''profit'' (reason_text repr plan) \<longrightarrow>
            dict_get (normalize_plan repr plan) ''filter'' = JNull)"
  using assms by (simp add: filter_field infer_metrics_def py_or_def)

theorem infer_filter_from_reason_witness:
  "norm_dataset sample_repr revenue_expense_plan = ''kpi_totals'' \<and>
   \<not> truthy (dict_get revenue_expense_plan ''filter'') \<and>
   str_contains ''revenue'' (reason_text sample_repr revenue_expense_plan) \<and>
   str_contains ''expense'' (reason_text sample_repr revenue_expense_plan) \<and>
   \<not> str_contains ''profit'' (reason_text sample_repr revenue_expense_plan) \<and>
   dict_get (normalize_plan sample_repr revenue_expense_plan) ''filter''
     = JDict [(''metric'', JList [JStr ''totalRevenue'', JStr ''totalExpenses''])] \<and>
   norm_dataset sample_repr no_keyword_plan = ''kpi_totals'' \<and>
   \<not> truthy (dict_get no_keyword_plan ''filter'') \<and>
   \<not> str_contains ''revenue'' (reason_text sample_repr no_keyword_plan) \<and>
   \<not> str_contains ''expense'' (reason_text sample_repr no_keyword_plan) \<and>
   \<not> str_contains ''profit'' (reason_text sample_repr no_keyword_plan) \<and>
   dict_get (normalize_plan sample_repr no_keyword_plan) ''filter'' = JNull"
proof -
  have a1: "norm_dataset sample_repr revenue_expense_plan = ''kpi_totals''" by code_simp
  have a2: "\<not> truthy (dict_get revenue_expense_plan ''filter'')" by code_simp
  have a3: "str_contains ''revenue'' (reason_text sample_repr revenue_expense_plan)" by code_simp
  have a4: "str_contains ''expense'' (reason_text sample_repr revenue_expense_plan)" by code_simp
  have a5: "\<not> str_contains ''profit'' (reason_text sample_repr revenue_expense_plan)" by code_simp
  have b1: "norm_dataset sample_repr no_keyword_plan = ''kpi_totals''" by code_simp
  have b2: "\<not> truthy (dict_get no_keyword_plan ''filter'')" by code_simp
  have b3: "\<not> str_contains ''revenue'' (reason_text sample_repr no_keyword_plan)" by code_simp
  have b4: "\<not> str_contains ''expense'' (reason_text sample_repr no_keyword_plan)" by code_simp
  have b5: "\<not> str_contains ''profit'' (reason_text sample_repr no_keyword_plan)" by code_simp
  from infer_filter_from_reason [OF a1 a2] a3 a4 a5
  have a: "dict_get (normalize_plan sample_repr revenue_expense_plan) ''filter''
     = JDict [(''metric'', JList [JStr ''totalRevenue'', JStr ''totalExpenses''])]" by blast
  from infer_filter_from_reason [OF b1 b2] b3 b4 b5
  have b: "dict_get (normalize_plan sample_repr no_keyword_plan) ''filter'' = JNull" by blast
  show ?thesis using a1 a2 a3 a4 a5 a b1 b2 b3 b4 b5 b by blast
qed

subsection \<open>The default of x\<close>

lemma axis_defaults_x:
  "ds \<in> set valid_ds \<Longrightarrow>
   map_of (axis_defaults ds ct p) ''x'' = Some (py_or (dict_get p ''x'') (JStr (spec_default_x ds ct)))"
  by (auto simp: axis_defaults_def valid_ds_def spec_default_x_def map_of_set_axes)

lemma x_field:
  "dict_get (normalize_plan repr plan) ''x'' =
     py_or (dict_get plan ''x'')
       (JStr (spec_default_x (norm_dataset repr plan) (norm_chart_type repr plan)))"
  by (simp add: normalize_plan_def Let_def dict_get_def map_of_infer_filter map_of_dict_set
      axis_defaults_x [OF norm_dataset_valid] norm_chart_type_dict_set)

lemma spec_default_x_nonempty: "spec_default_x ds ct \<noteq> []"
  by (simp add: spec_default_x_def)

text \<open>
  Claim C7, as amended. The \<open>x\<close> of the normalised plan is the supplied value when that is
  truthy and the default of the dataset (and chart type) otherwise; it is never null or
  empty; it is a string whenever the supplied value was a string or was absent or falsy.
\<close>

theorem normalize_x_default:
  "dict_get (normalize_plan repr plan) ''x'' =
     (if truthy (dict_get plan ''x'') then dict_get plan ''x''
      else JStr (spec_default_x (norm_dataset repr plan) (norm_chart_type repr plan))) \<and>
   truthy (dict_get (normalize_plan repr plan) ''x'') \<and>
   dict_get (normalize_plan repr plan) ''x'' \<noteq> JNull \<and>
   (is_str (dict_get plan ''x'') \<or> \<not> truthy (dict_get plan ''x'') \<longrightarrow>
      is_str (dict_get (normalize_plan repr plan) ''x''))"
proof -
  let ?d = "JStr (spec_default_x (norm_dataset repr plan) (norm_chart_type repr plan))"
  have x: "dict_get (normalize_plan repr plan) ''x'' = py_or (dict_get plan ''x'') ?d"
    by (rule x_field)
  have t: "truthy (py_or (dict_get plan ''x'') ?d)"
    by (simp add: py_or_def spec_default_x_nonempty)
  then have n: "py_or (dict_get plan ''x'') ?d \<noteq> JNull" by auto
  have s: "is_str (py_or (dict_get plan ''x'') ?d)"
    if "is_str (dict_get plan ''x'') \<or> \<not> truthy (dict_get plan ''x'')"
    using that by (auto simp: py_or_def)
  show ?thesis using x t n s by (simp add: py_or_def)
qed

theorem normalize_x_default_witness:
  "\<not> truthy (dict_get [(''dataset'', JStr ''kpi_monthly'')] ''x'') \<and>
   dict_get (normalize_plan sample_repr [(''dataset'', JStr ''kpi_monthly'')]) ''x'' = JStr ''month'' \<and>
   is_str (dict_get [(''dataset'', JStr ''products''), (''x'', JStr ''margin'')] ''x'') \<and>
   dict_get (normalize_plan sample_repr [(''dataset'', JStr ''products''), (''x'', JStr ''margin'')]) ''x''
     = JStr ''margin''"
proof -
  let ?p = "[(''dataset'', JStr ''kpi_monthly'')]"
  let ?q = "[(''dataset'', JStr ''products''), (''x'', JStr ''margin'')]"
  have h1: "\<not> truthy (dict_get ?p ''x'')" by code_simp
  have h2: "spec_default_x (norm_dataset sample_repr ?p) (norm_chart_type sample_repr ?p) = ''month''"
    by code_simp
  have h3: "is_str (dict_get ?q ''x'')" by code_simp
  have h4: "truthy (dict_get ?q ''x'')" by code_simp
  have h5: "dict_get ?q ''x'' = JStr ''margin''" by code_simp
  from normalize_x_default [of sample_repr ?p] h1 h2
  have a: "dict_get (normalize_plan sample_repr ?p) ''x'' = JStr ''month''" by simp
  from normalize_x_default [of sample_repr ?q] h4 h5
  have b: "dict_get (normalize_plan sample_repr ?q) ''x'' = JStr ''margin''" by simp
  show ?thesis using a b h1 h3 by blast
qed

theorem x_number_counterexample:
  "dict_get (normalize_plan sample_repr [(''dataset'', JStr ''kpi_totals''), (''x'', JInt 5)]) ''x''
     = JInt 5 \<and>
   \<not> is_str (dict_get (normalize_plan sample_repr
                  [(''dataset'', JStr ''kpi_totals''), (''x'', JInt 5)]) ''x'')"
  by code_simp

subsection \<open>Idempotence\<close>

lemma py_or_idem: "py_or (py_or a b) b = py_or a b"
  by (simp add: py_or_def)

lemma strip_valid: "ds \<in> set valid_ds \<Longrightarrow> strip ds = ds"
  by (auto simp: valid_ds_def strip_def py_isspace_def)

lemma valid_nonempty: "ds \<in> set valid_ds \<Longrightarrow> ds \<noteq> []"
  by (auto simp: valid_ds_def)

lemma chart_nonempty: "ct \<in> set chart_types \<Longrightarrow> ct \<noteq> []"
  by (auto simp: chart_types_def)


lemma chart_lookup_fix:
  assumes "ct \<in> set chart_types"
  shows "map_of ch_map (lower (strip ct)) = Some ct"
proof -
  have "list_all (\<lambda>c. map_of ch_map (lower (strip c)) = Some c) chart_types"
    by code_simp
  then show ?thesis using assms by (simp add: list_all_iff)
qed


lemma norm_dataset_fix:
  assumes "map_of q ''dataset'' = Some (JStr ds)" and "ds \<in> set valid_ds"
  shows "norm_dataset repr q = ds"
proof -
  have "dict_get q ''dataset'' = JStr ds" using assms(1) by (rule dict_get_Some)
  then have "dataset_text repr q = ds"
    using assms(2) by (simp add: dataset_text_def py_or_def valid_nonempty strip_valid)
  then show ?thesis using assms(2) by (simp add: norm_dataset_def Let_def)
qed

lemma norm_chart_type_fix:
  assumes "map_of q ''chart_type'' = Some (JStr ct)" and "ct \<in> set chart_types"
  shows "norm_chart_type repr q = ct"
proof -
  have "dict_get q ''chart_type'' = JStr ct" using assms(1) by (rule dict_get_Some)
  then have "chart_text repr q = lower (strip ct)"
    using assms(2) by (simp add: chart_text_def py_or_def chart_nonempty)
  then show ?thesis using assms(2) by (simp add: norm_chart_type_def chart_lookup_fix)
qed

lemma set_axes_fix:
  assumes "map_of q ''x'' = Some vx" and "map_of q ''y'' = Some vy"
    and "py_or vx dx = vx" and "py_or vy dy = vy"
  shows "set_axes dx dy q = q"
proof -
  have x: "dict_get q ''x'' = vx" using assms(1) by (rule dict_get_Some)
  have y: "dict_get q ''y'' = vy" using assms(2) by (rule dict_get_Some)
  have "dict_set ''x'' (py_or (dict_get q ''x'') dx) q = q"
    using assms(1,3) x by (simp add: dict_set_same)
  moreover have "dict_set ''y'' (py_or (dict_get q ''y'') dy) q = q"
    using assms(2,4) y by (simp add: dict_set_same)
  ultimately show ?thesis by (simp add: set_axes_def Let_def)
qed

lemma axis_defaults_pair:
  "axis_defaults ds ct p = (case axis_pair ds ct of Some (dx, dy) \<Rightarrow> set_axes dx dy p | None \<Rightarrow> p)"
  by (simp add: axis_defaults_def axis_pair_def)

lemma map_of_normalize_axes:
  "k = ''x'' \<or> k = ''y'' \<Longrightarrow>
   map_of (normalize_plan repr plan) k =
     map_of (axis_defaults (norm_dataset repr plan) (norm_chart_type repr plan)
              (dict_set ''chart_type'' (JStr (norm_chart_type repr plan))
                (dict_set ''dataset'' (JStr (norm_dataset repr plan)) plan))) k"
  by (auto simp: normalize_plan_def Let_def map_of_infer_filter map_of_dict_set
      norm_chart_type_dict_set)

lemma axis_defaults_fix:
  "axis_defaults (norm_dataset repr plan) (norm_chart_type repr plan) (normalize_plan repr plan)
     = normalize_plan repr plan"
proof (cases "axis_pair (norm_dataset repr plan) (norm_chart_type repr plan)")
  case None
  then show ?thesis by (simp add: axis_defaults_pair)
next
  case (Some pr)
  obtain dx dy where pr: "pr = (dx, dy)" by (cases pr)
  let ?p2 = "dict_set ''chart_type'' (JStr (norm_chart_type repr plan))
                (dict_set ''dataset'' (JStr (norm_dataset repr plan)) plan)"
  have x: "map_of (normalize_plan repr plan) ''x'' = Some (py_or (dict_get ?p2 ''x'') dx)"
    by (simp add: map_of_normalize_axes axis_defaults_pair Some pr map_of_set_axes)
  have y: "map_of (normalize_plan repr plan) ''y'' = Some (py_or (dict_get ?p2 ''y'') dy)"
    by (simp add: map_of_normalize_axes axis_defaults_pair Some pr map_of_set_axes)
  have "set_axes dx dy (normalize_plan repr plan) = normalize_plan repr plan"
    by (rule set_axes_fix [OF x y py_or_idem py_or_idem])
  then show ?thesis by (simp add: axis_defaults_pair Some pr)
qed

lemma map_of_filter_field:
  "map_of (normalize_plan repr plan) ''filter'' = Some
     (if norm_dataset repr plan = ''kpi_totals'' \<and> \<not> truthy (dict_get plan ''filter'')
         \<and> infer_metrics (reason_text repr plan) \<noteq> []
      then JDict [(''metric'', JList (infer_metrics (reason_text repr plan)))]
      else py_or (dict_get plan ''filter'') JNull)"
  by (simp add: normalize_plan_before infer_filter_def Let_def map_of_dict_set
      dict_get_Some [OF before_infer_filter] before_infer_filter before_infer_reason py_or_null)

lemma map_of_calculation_field:
  "map_of (normalize_plan repr plan) ''calculation'' = Some (py_or (dict_get plan ''calculation'') JNull)"
  by (simp add: normalize_plan_def Let_def map_of_infer_filter map_of_dict_set dict_get_set
      dict_get_cong [OF map_of_axis_defaults])

lemma map_of_reason_field:
  "map_of (normalize_plan repr plan) ''reason'' = map_of plan ''reason''"
  by (simp add: normalize_plan_def Let_def map_of_infer_filter map_of_dict_set map_of_axis_defaults)

lemma filter_set_fix:
  "dict_set ''filter'' (py_or (dict_get (normalize_plan repr plan) ''filter'') JNull)
     (normalize_plan repr plan) = normalize_plan repr plan"
proof (rule dict_set_same)
  show "map_of (normalize_plan repr plan) ''filter''
          = Some (py_or (dict_get (normalize_plan repr plan) ''filter'') JNull)"
    by (simp add: dict_get_Some [OF map_of_filter_field] map_of_filter_field py_or_idem)
       (simp add: py_or_def)
qed

lemma calculation_set_fix:
  "dict_set ''calculation'' (py_or (dict_get (normalize_plan repr plan) ''calculation'') JNull)
     (normalize_plan repr plan) = normalize_plan repr plan"
proof (rule dict_set_same)
  show "map_of (normalize_plan repr plan) ''calculation''
          = Some (py_or (dict_get (normalize_plan repr plan) ''calculation'') JNull)"
    by (simp add: dict_get_Some [OF map_of_calculation_field] map_of_calculation_field py_or_idem)
qed

lemma infer_filter_fix:
  "infer_filter repr (norm_dataset repr plan) (normalize_plan repr plan) = normalize_plan repr plan"
proof -
  have r: "reason_text repr (normalize_plan repr plan) = reason_text repr plan"
    by (rule reason_text_cong) (rule map_of_reason_field)
  show ?thesis
    by (auto simp: infer_filter_def [of repr _ "normalize_plan repr plan"] Let_def r
        dict_get_Some [OF map_of_filter_field] py_or_null)
qed

lemma normalize_plan_idem:
  "normalize_plan repr (normalize_plan repr plan) = normalize_plan repr plan"
proof -
  let ?q = "normalize_plan repr plan"
  let ?ds = "norm_dataset repr plan"
  let ?ct = "norm_chart_type repr plan"
  have ds: "norm_dataset repr ?q = ?ds"
    by (rule norm_dataset_fix [OF map_of_norm_dataset norm_dataset_valid])
  have s1: "dict_set ''dataset'' (JStr ?ds) ?q = ?q"
    by (rule dict_set_same [OF map_of_norm_dataset])
  have ct: "norm_chart_type repr ?q = ?ct"
    by (rule norm_chart_type_fix [OF map_of_norm_chart_type norm_chart_type_valid])
  have s2: "dict_set ''chart_type'' (JStr ?ct) ?q = ?q"
    by (rule dict_set_same [OF map_of_norm_chart_type])
  have "normalize_plan repr ?q =
          infer_filter repr ?ds
            (dict_set ''calculation'' (py_or (dict_get ?q ''calculation'') JNull) ?q)"
    unfolding normalize_plan_def [of repr ?q] Let_def ds s1 ct s2 axis_defaults_fix filter_set_fix
    by (rule refl)
  then show ?thesis by (simp only: calculation_set_fix infer_filter_fix)
qed

text \<open>
  Claim C4, as amended. Normalising a normalised plan returns the same plan; and a plan
  that carries a truthy filter (not null, not empty) keeps exactly that filter: the
  inference from the rationale does not fire. A filter that is absent, null, empty or
  otherwise falsy counts as no filter: the result is the filter inferred from the rationale
  on \<open>kpi_totals\<close>, and null where nothing is inferred.
\<close>

theorem normalize_idempotent:
  "normalize_plan repr (normalize_plan repr plan) = normalize_plan repr plan \<and>
   (truthy (dict_get plan ''filter'') \<longrightarrow>
      dict_get (normalize_plan repr plan) ''filter'' = dict_get plan ''filter'') \<and>
   (\<not> truthy (dict_get plan ''filter'') \<longrightarrow>
      dict_get (normalize_plan repr plan) ''filter'' =
        (if norm_dataset repr plan = ''kpi_totals'' \<and> infer_metrics (reason_text repr plan) \<noteq> []
         then JDict [(''metric'', JList (infer_metrics (reason_text repr plan)))]
         else JNull))"
  by (simp add: normalize_plan_idem filter_field py_or_def)

theorem normalize_idempotent_witness:
  "normalize_plan sample_repr (normalize_plan sample_repr filtered_plan)
     = normalize_plan sample_repr filtered_plan \<and>
   truthy (dict_get filtered_plan ''filter'') \<and>
   dict_get (normalize_plan sample_repr filtered_plan) ''filter''
     = JDict [(''metric'', JList [JStr ''totalProfit''])] \<and>
   \<not> truthy (dict_get falsy_filter_plan ''filter'') \<and>
   dict_get (normalize_plan sample_repr falsy_filter_plan) ''filter''
     = JDict [(''metric'', JList [JStr ''totalExpenses'', JStr ''totalProfit''])] \<and>
   \<not> truthy (dict_get [(''dataset'', JStr ''products''), (''filter'', JInt 0)] ''filter'') \<and>
   dict_get (normalize_plan sample_repr [(''dataset'', JStr ''products''), (''filter'', JInt 0)])
     ''filter'' = JNull"
proof -
  let ?q = "[(''dataset'', JStr ''products''), (''filter'', JInt 0)]"
  have h: "truthy (dict_get filtered_plan ''filter'')" by code_simp
  have v: "dict_get filtered_plan ''filter'' = JDict [(''metric'', JList [JStr ''totalProfit''])]"
    by code_simp
  have f1: "\<not> truthy (dict_get falsy_filter_plan ''filter'')" by code_simp
  have d1: "norm_dataset sample_repr falsy_filter_plan = ''kpi_totals''" by code_simp
  have m1: "infer_metrics (reason_text sample_repr falsy_filter_plan)
              = [JStr ''totalExpenses'', JStr ''totalProfit'']" by code_simp
  have f2: "\<not> truthy (dict_get ?q ''filter'')" by code_simp
  have d2: "norm_dataset sample_repr ?q = ''products''" by code_simp
  from normalize_idempotent [of sample_repr filtered_plan] h v
  have a: "normalize_plan sample_repr (normalize_plan sample_repr filtered_plan)
             = normalize_plan sample_repr filtered_plan \<and>
           dict_get (normalize_plan sample_repr filtered_plan) ''filter''
             = JDict [(''metric'', JList [JStr ''totalProfit''])]" by simp
  from normalize_idempotent [of sample_repr falsy_filter_plan] f1 d1 m1
  have b: "dict_get (normalize_plan sample_repr falsy_filter_plan) ''filter''
     = JDict [(''metric'', JList [JStr ''totalExpenses'', JStr ''totalProfit''])]" by simp
  from normalize_idempotent [of sample_repr ?q] f2 d2
  have c: "dict_get (normalize_plan sample_repr ?q) ''filter'' = JNull" by simp
  show ?thesis using a b c h f1 f2 by blast
qed

theorem empty_filter_counterexample:
  "map_of empty_filter_plan ''filter'' = Some (JDict []) \<and>
   dict_get (normalize_plan sample_repr empty_filter_plan) ''filter''
     = JDict [(''metric'', JList [JStr ''totalRevenue''])] \<and>
   dict_get (normalize_plan sample_repr empty_filter_plan) ''filter''
     \<noteq> dict_get empty_filter_plan ''filter''"
  by code_simp

section \<open>The fallback of the planner\<close>

lemma normalize_fallback: "normalize_plan repr fallback_plan = fallback_plan"
proof -
  have "str_contains ''revenue'' (lower ''Fallback plan'') = False"
       "str_contains ''expense'' (lower ''Fallback plan'') = False"
       "str_contains ''profit'' (lower ''Fallback plan'') = False"
    by code_simp+
  then have m: "infer_metrics (lower ''Fallback plan'') = []"
    by (simp add: infer_metrics_def)
  have ds: "norm_dataset repr fallback_plan = ''kpi_totals''"
    by (rule norm_dataset_fix) (simp_all add: fallback_plan_def valid_ds_def)
  have ct: "norm_chart_type repr p = ''bar''" if "map_of p ''chart_type'' = Some (JStr ''bar'')" for p
    using that by (rule norm_chart_type_fix) (simp add: chart_types_def)
  show ?thesis
    unfolding normalize_plan_def Let_def ds
    by (simp add: ct fallback_plan_def dict_set_def axis_defaults_def set_axes_def py_or_def
        dict_get_def infer_filter_def reason_text_def dict_get_default_def m [simplified])
qed

text \<open>
  Claim C5. When the call to the oracle fails, when the cleaned text does not parse as JSON,
  or when it parses to something that is not an object, \<open>llm_plan\<close> returns the fallback
  plan, which normalisation leaves as it is: dataset \<open>kpi_totals\<close>, chart type \<open>bar\<close>,
  \<open>x = metric\<close>, \<open>y = value\<close>, filter and calculation null.
\<close>

theorem llm_plan_fallback:
  "(oracle prompt = Inl e \<longrightarrow> llm_plan repr json_loads oracle prompt = fallback_plan) \<and>
   (oracle prompt = Inr content \<and> json_loads (clean_json (strip content)) = None \<longrightarrow>
      llm_plan repr json_loads oracle prompt = fallback_plan) \<and>
   (oracle prompt = Inr content \<and> json_loads (clean_json (strip content)) = Some v \<and>
      (\<forall>plan. v \<noteq> JDict plan) \<longrightarrow>
      llm_plan repr json_loads oracle prompt = fallback_plan) \<and>
   map (dict_get fallback_plan) [''dataset'', ''chart_type'', ''x'', ''y'', ''filter'', ''calculation'']
     = [JStr ''kpi_totals'', JStr ''bar'', JStr ''metric'', JStr ''value'', JNull, JNull]"
proof -
  have a: "llm_plan repr json_loads oracle prompt = fallback_plan" if "oracle prompt = Inl e"
    using that by (simp add: llm_plan_def llm_plan_try_def normalize_fallback)
  have b: "llm_plan repr json_loads oracle prompt = fallback_plan"
    if "oracle prompt = Inr content" "json_loads (clean_json (strip content)) = None"
    using that by (simp add: llm_plan_def llm_plan_try_def normalize_fallback)
  have c: "llm_plan repr json_loads oracle prompt = fallback_plan"
    if "oracle prompt = Inr content" "json_loads (clean_json (strip content)) = Some v"
       "\<forall>plan. v \<noteq> JDict plan"
    using that by (cases v) (simp_all add: llm_plan_def llm_plan_try_def normalize_fallback)
  have d: "map (dict_get fallback_plan) [''dataset'', ''chart_type'', ''x'', ''y'', ''filter'', ''calculation'']
     = [JStr ''kpi_totals'', JStr ''bar'', JStr ''metric'', JStr ''value'', JNull, JNull]"
    by (simp add: fallback_plan_def dict_get_def)
  show ?thesis using a b c d by blast
qed

theorem llm_plan_fallback_witness:
  "failing_oracle ''show revenue'' = Inl OracleFailure \<and>
   llm_plan sample_repr sample_loads failing_oracle ''show revenue'' = fallback_plan \<and>
   prose_oracle ''show revenue'' = Inr ''Sorry, I cannot help.'' \<and>
   sample_loads (clean_json (strip ''Sorry, I cannot help.'')) = None \<and>
   llm_plan sample_repr sample_loads prose_oracle ''show revenue'' = fallback_plan \<and>
   list_oracle ''show revenue'' = Inr ''[1]'' \<and>
   sample_loads (clean_json (strip ''[1]'')) = Some (JList [JInt 1]) \<and>
   llm_plan sample_repr sample_loads list_oracle ''show revenue'' = fallback_plan"
proof -
  have h1: "failing_oracle ''show revenue'' = Inl OracleFailure" by (simp add: failing_oracle_def)
  have h2: "prose_oracle ''show revenue'' = Inr ''Sorry, I cannot help.''"
    by (simp add: prose_oracle_def)
  have h3: "sample_loads (clean_json (strip ''Sorry, I cannot help.'')) = None" by code_simp
  have h4: "list_oracle ''show revenue'' = Inr ''[1]''" by (simp add: list_oracle_def)
  have h5: "sample_loads (clean_json (strip ''[1]'')) = Some (JList [JInt 1])" by code_simp
  have h6: "\<forall>plan. JList [JInt 1] \<noteq> JDict plan" by simp
  from llm_plan_fallback [of failing_oracle "''show revenue''" OracleFailure sample_repr sample_loads] h1
  have a: "llm_plan sample_repr sample_loads failing_oracle ''show revenue'' = fallback_plan"
    by blast
  from llm_plan_fallback [of prose_oracle "''show revenue''" _ sample_repr sample_loads
      "''Sorry, I cannot help.''"] h2 h3
  have b: "llm_plan sample_repr sample_loads prose_oracle ''show revenue'' = fallback_plan"
    by blast
  from llm_plan_fallback [of list_oracle "''show revenue''" _ sample_repr sample_loads
      "''[1]''" "JList [JInt 1]"] h4 h5 h6
  have c: "llm_plan sample_repr sample_loads list_oracle ''show revenue'' = fallback_plan"
    by blast
  show ?thesis using a b c h1 h2 h3 h4 h5 by blast
qed


section \<open>The melted KPI document\<close>

text \<open>
  Claim C6: the code at the document of the claim. The totals table has the three rows
  100, 40 and 60 under \<open>metric\<close> and \<open>value\<close>; the other three tables have no rows and no
  columns, while the frames \<open>fetch_kpi_frames\<close> builds for a missing document carry the
  headers.
\<close>

theorem melt_sample_document:
  "melt_kpi_document lib repr sample_kpi_doc =
     Inr [(''kpi_totals'',
           \<lparr>columns = [''metric'', ''value''],
            rows = [[(''metric'', JStr ''totalRevenue''), (''value'', JInt 100)],
                    [(''metric'', JStr ''totalExpenses''), (''value'', JInt 40)],
                    [(''metric'', JStr ''totalProfit''), (''value'', JInt 60)]]\<rparr>),
          (''kpi_expensesByCategory'', \<lparr>columns = [], rows = []\<rparr>),
          (''kpi_monthly'', \<lparr>columns = [], rows = []\<rparr>),
          (''kpi_daily'', \<lparr>columns = [], rows = []\<rparr>)] \<and>
   map (\<lambda>nf. (fst nf, columns (snd nf))) empty_kpi_frames =
     [(''kpi_totals'', [''metric'', ''value'']),
      (''kpi_expensesByCategory'', [''category'', ''value'']),
      (''kpi_monthly'', [''month'', ''revenue'', ''expenses'', ''operationalExpenses'',
                         ''nonOperationalExpenses'']),
      (''kpi_daily'', [''date'', ''revenue'', ''expenses''])]"
proof -
  have t: "totals_frame lib sample_kpi_doc =
           \<lparr>columns = [''metric'', ''value''],
            rows = [[(''metric'', JStr ''totalRevenue''), (''value'', JInt 100)],
                    [(''metric'', JStr ''totalExpenses''), (''value'', JInt 40)],
                    [(''metric'', JStr ''totalProfit''), (''value'', JInt 60)]]\<rparr>"
    by (simp add: totals_frame_def sample_kpi_doc_def dict_get_default_def frame_of_records_def
        first_seen_def store_column_def add_column_def cell_def)
  have e: "exp_frame lib sample_kpi_doc = Inr \<lparr>columns = [], rows = []\<rparr>"
    by (simp add: exp_frame_def sample_kpi_doc_def dict_get_default_def py_or_def
        frame_of_records_def first_seen_def)
  have m: "py_or (dict_get_default sample_kpi_doc ''monthlyData'' (JList [])) (JList []) = JList []"
    by code_simp
  have d: "py_or (dict_get_default sample_kpi_doc ''dailyData'' (JList [])) (JList []) = JList []"
    by code_simp
  have f: "pd_DataFrame lib (JList []) = Inr \<lparr>columns = [], rows = []\<rparr>"
    by (simp add: pd_DataFrame_def frame_of_records_def first_seen_def)
  have nm: "normalize_monthly repr \<lparr>columns = [], rows = []\<rparr> = \<lparr>columns = [], rows = []\<rparr>"
    by (simp add: normalize_monthly_def df_empty_def)
  have nd: "normalize_daily lib \<lparr>columns = [], rows = []\<rparr> = \<lparr>columns = [], rows = []\<rparr>"
    by (simp add: normalize_daily_def df_empty_def)
  have melt: "melt_kpi_document lib repr sample_kpi_doc =
     Inr [(''kpi_totals'', totals_frame lib sample_kpi_doc),
          (''kpi_expensesByCategory'', \<lparr>columns = [], rows = []\<rparr>),
          (''kpi_monthly'', \<lparr>columns = [], rows = []\<rparr>),
          (''kpi_daily'', \<lparr>columns = [], rows = []\<rparr>)]"
    by (simp add: melt_kpi_document_def Let_def e m d f nm nd)
  have h: "map (\<lambda>nf. (fst nf, columns (snd nf))) empty_kpi_frames =
     [(''kpi_totals'', [''metric'', ''value'']),
      (''kpi_expensesByCategory'', [''category'', ''value'']),
      (''kpi_monthly'', [''month'', ''revenue'', ''expenses'', ''operationalExpenses'',
                         ''nonOperationalExpenses'']),
      (''kpi_daily'', [''date'', ''revenue'', ''expenses''])]"
    by (simp add: empty_kpi_frames_def frame_of_columns_def)
  show ?thesis using melt t h by simp
qed

section \<open>Filter application\<close>

lemma columns_filter_step: "columns (filter_step lib kv df) = columns df"
  by (cases kv) (simp add: filter_step_def split: jval.splits)

lemma keeps_row_single:
  "keeps_row lib cols [(c, v)] =
     (\<lambda>r. c \<in> set cols \<longrightarrow> (case v of JList vs \<Rightarrow> isin lib (cell r c) vs | _ \<Rightarrow> True))"
  by (rule ext) (simp add: keeps_row_def)

lemma rows_filter_step:
  "rows (filter_step lib kv df) = filter (keeps_row lib (columns df) [kv]) (rows df)"
  by (cases kv) (simp add: filter_step_def keeps_row_single split: jval.splits)

lemma keeps_row_Cons:
  "keeps_row lib cols (kv # kvs) = (\<lambda>r. keeps_row lib cols [kv] r \<and> keeps_row lib cols kvs r)"
  by (rule ext) (simp add: keeps_row_def)

lemma fold_filter_step:
  "fold (filter_step lib) kvs df = df\<lparr>rows := filter (keeps_row lib (columns df) kvs) (rows df)\<rparr>"
proof (induction kvs arbitrary: df)
  case Nil
  then show ?case by (simp add: keeps_row_def)
next
  case (Cons kv kvs)
  have "fold (filter_step lib) (kv # kvs) df = fold (filter_step lib) kvs (filter_step lib kv df)" by simp
  also have "\<dots> = (filter_step lib kv df)
      \<lparr>rows := filter (keeps_row lib (columns df) kvs) (filter (keeps_row lib (columns df) [kv]) (rows df))\<rparr>"
    by (simp add: Cons.IH columns_filter_step rows_filter_step)
  also have "\<dots> = df\<lparr>rows := filter (keeps_row lib (columns df) (kv # kvs)) (rows df)\<rparr>"
  proof -
    have "filter_step lib kv df = df\<lparr>rows := rows (filter_step lib kv df)\<rparr>"
      by (cases kv) (simp add: filter_step_def split: jval.splits)
    then have "(filter_step lib kv df)\<lparr>rows := X\<rparr> = df\<lparr>rows := X\<rparr>" for X
      by (metis dataframe.update_convs(2) dataframe.surjective)
    moreover have "filter (keeps_row lib (columns df) kvs) (filter (keeps_row lib (columns df) [kv]) (rows df))
        = filter (keeps_row lib (columns df) (kv # kvs)) (rows df)"
      by (simp add: keeps_row_Cons [of _ _ kv kvs] conj_commute)
    ultimately show ?thesis by simp
  qed
  finally show ?case .
qed

lemma keeps_row_no_columns:
  "list_all (\<lambda>kv. fst kv \<notin> set cols) kvs \<Longrightarrow> keeps_row lib cols kvs r"
  by (induction kvs) (auto simp: keeps_row_def)

text \<open>
  Claim C8. \<open>apply_filter\<close> keeps exactly the rows that, for every field of the filter that
  is a column, hold a value that \<open>isin\<close> counts among those of the field's list (any of
  the values within a field, all fields together), in their order and with the columns
  untouched; fields that are not
  columns change nothing; an absent or empty filter returns the table as it is, and so does
  any filter on an empty table.
\<close>

theorem apply_filter_rows:
  "(\<not> truthy (dict_get plan ''filter'') \<longrightarrow> apply_filter lib df plan = Inr df) \<and>
   (df_empty df \<longrightarrow> apply_filter lib df plan = Inr df) \<and>
   (dict_get plan ''filter'' = JDict kvs \<longrightarrow>
      apply_filter lib df plan = Inr (df\<lparr>rows := filter (keeps_row lib (columns df) kvs) (rows df)\<rparr>)) \<and>
   (dict_get plan ''filter'' = JDict kvs \<and> list_all (\<lambda>kv. fst kv \<notin> set (columns df)) kvs \<longrightarrow>
      apply_filter lib df plan = Inr df)"
proof -
  have a: "apply_filter lib df plan = Inr df" if "\<not> truthy (dict_get plan ''filter'')"
    using that by (simp add: apply_filter_def)
  have b: "apply_filter lib df plan = Inr df" if "df_empty df"
    using that by (simp add: apply_filter_def)
  have c: "apply_filter lib df plan = Inr (df\<lparr>rows := filter (keeps_row lib (columns df) kvs) (rows df)\<rparr>)"
    if f: "dict_get plan ''filter'' = JDict kvs"
  proof (cases "kvs = [] \<or> df_empty df")
    case True
    then have "apply_filter lib df plan = Inr df" using f by (auto simp: apply_filter_def)
    moreover have "filter (keeps_row lib (columns df) kvs) (rows df) = rows df"
      using True by (auto simp: keeps_row_def df_empty_def list_all_iff)
    ultimately show ?thesis by simp
  next
    case False
    then show ?thesis using f by (simp add: apply_filter_def fold_filter_step)
  qed
  have d: "apply_filter lib df plan = Inr df"
    if f: "dict_get plan ''filter'' = JDict kvs"
      and n: "list_all (\<lambda>kv. fst kv \<notin> set (columns df)) kvs"
  proof -
    have "filter (keeps_row lib (columns df) kvs) (rows df) = rows df"
      using keeps_row_no_columns [OF n] by simp
    then show ?thesis using c [OF f] by simp
  qed
  show ?thesis using a b c d by blast
qed

theorem apply_filter_rows_witness:
  "dict_get sample_filter_plan ''filter''
     = JDict [(''metric'', JList [JStr ''totalRevenue'', JStr ''totalExpenses'']),
              (''region'', JList [JStr ''north''])] \<and>
   apply_filter sample_pandas sample_totals sample_filter_plan =
     Inr \<lparr>columns = [''metric'', ''value''],
          rows = [[(''metric'', JStr ''totalRevenue''), (''value'', JInt 100)],
                  [(''metric'', JStr ''totalExpenses''), (''value'', JInt 40)]]\<rparr> \<and>
   \<not> truthy (dict_get [] ''filter'') \<and> apply_filter sample_pandas sample_totals [] = Inr sample_totals \<and>
   df_empty (frame_of_columns [''metric'', ''value'']) \<and>
   apply_filter sample_pandas (frame_of_columns [''metric'', ''value'']) sample_filter_plan
     = Inr (frame_of_columns [''metric'', ''value'']) \<and>
   dict_get [(''filter'', JDict [(''region'', JList [JStr ''north''])])] ''filter''
     = JDict [(''region'', JList [JStr ''north''])] \<and>
   list_all (\<lambda>kv. fst kv \<notin> set (columns sample_totals)) [(''region'', JList [JStr ''north''])] \<and>
   apply_filter sample_pandas sample_totals [(''filter'', JDict [(''region'', JList [JStr ''north''])])]
     = Inr sample_totals"
proof -
  let ?kvs = "[(''metric'', JList [JStr ''totalRevenue'', JStr ''totalExpenses'']),
              (''region'', JList [JStr ''north''])]"
  let ?only = "[(''region'', JList [JStr ''north''])]"
  have h1: "dict_get sample_filter_plan ''filter'' = JDict ?kvs" by code_simp
  have v1: "sample_totals\<lparr>rows := filter (keeps_row sample_pandas (columns sample_totals) ?kvs) (rows sample_totals)\<rparr>
     = \<lparr>columns = [''metric'', ''value''],
          rows = [[(''metric'', JStr ''totalRevenue''), (''value'', JInt 100)],
                  [(''metric'', JStr ''totalExpenses''), (''value'', JInt 40)]]\<rparr>"
    by code_simp
  have h2: "\<not> truthy (dict_get [] ''filter'')" by code_simp
  have h3: "df_empty (frame_of_columns [''metric'', ''value''])" by code_simp
  have h4: "dict_get [(''filter'', JDict ?only)] ''filter'' = JDict ?only" by code_simp
  have h5: "list_all (\<lambda>kv. fst kv \<notin> set (columns sample_totals)) ?only" by code_simp
  from apply_filter_rows [of sample_filter_plan sample_pandas sample_totals ?kvs] h1 v1
  have a: "apply_filter sample_pandas sample_totals sample_filter_plan =
     Inr \<lparr>columns = [''metric'', ''value''],
          rows = [[(''metric'', JStr ''totalRevenue''), (''value'', JInt 100)],
                  [(''metric'', JStr ''totalExpenses''), (''value'', JInt 40)]]\<rparr>" by simp
  from apply_filter_rows [of "[]" sample_pandas sample_totals] h2
  have b: "apply_filter sample_pandas sample_totals [] = Inr sample_totals" by blast
  from apply_filter_rows [of sample_filter_plan sample_pandas "frame_of_columns [''metric'', ''value'']"] h3
  have c: "apply_filter sample_pandas (frame_of_columns [''metric'', ''value'']) sample_filter_plan
     = Inr (frame_of_columns [''metric'', ''value''])" by blast
  from apply_filter_rows [of "[(''filter'', JDict ?only)]" sample_pandas sample_totals ?only] h4 h5
  have d: "apply_filter sample_pandas sample_totals [(''filter'', JDict ?only)] = Inr sample_totals" by blast
  show ?thesis using a b c d h1 h2 h3 h4 h5 by blast
qed

section \<open>Calculation safety\<close>

text \<open>
  Claim C9. For a calculation that is a string: without an \<open>=\<close> the table is returned as it
  is; when the right-hand side fails to evaluate the table is returned as it is; on an empty
  table it is returned as it is; and in every case a table is returned, never an error. An
  absent or empty calculation returns the table as it is too.
\<close>

theorem apply_calculation_safe:
  "(\<not> truthy (dict_get plan ''calculation'') \<longrightarrow> apply_calculation lib df plan = Inr df) \<and>
   (dict_get plan ''calculation'' = JStr s \<longrightarrow>
      (CHR ''='' \<notin> set s \<longrightarrow> apply_calculation lib df plan = Inr df) \<and>
      (pd_eval lib (calc_rhs s) df = Inl e \<longrightarrow> apply_calculation lib df plan = Inr df) \<and>
      (df_empty df \<longrightarrow> apply_calculation lib df plan = Inr df) \<and>
      (\<exists>df'. apply_calculation lib df plan = Inr df'))"
proof -
  have a: "apply_calculation lib df plan = Inr df" if "\<not> truthy (dict_get plan ''calculation'')"
    using that by (simp add: apply_calculation_def Let_def)
  have b: "apply_calculation lib df plan = Inr df"
    if "dict_get plan ''calculation'' = JStr s" "CHR ''='' \<notin> set s"
    using that by (simp add: apply_calculation_def Let_def)
  have c: "apply_calculation lib df plan = Inr df"
    if "dict_get plan ''calculation'' = JStr s" "pd_eval lib (calc_rhs s) df = Inl e"
    using that by (simp add: apply_calculation_def Let_def calc_try_def)
  have d: "apply_calculation lib df plan = Inr df"
    if "dict_get plan ''calculation'' = JStr s" "df_empty df"
    using that by (simp add: apply_calculation_def Let_def)
  have t: "\<exists>df'. apply_calculation lib df plan = Inr df'"
    if "dict_get plan ''calculation'' = JStr s"
    using that by (simp add: apply_calculation_def Let_def split: sum.splits)
  show ?thesis using a b c d t by blast
qed

theorem apply_calculation_safe_witness:
  "\<not> truthy (dict_get [] ''calculation'') \<and>
   apply_calculation sample_pandas sample_totals [] = Inr sample_totals \<and>
   dict_get [(''calculation'', JStr ''double value'')] ''calculation'' = JStr ''double value'' \<and>
   CHR ''='' \<notin> set ''double value'' \<and>
   apply_calculation sample_pandas sample_totals [(''calculation'', JStr ''double value'')]
     = Inr sample_totals \<and>
   dict_get [(''calculation'', JStr ''margin = price'')] ''calculation'' = JStr ''margin = price'' \<and>
   pd_eval sample_pandas (calc_rhs ''margin = price'') sample_totals = Inl NameError \<and>
   apply_calculation sample_pandas sample_totals [(''calculation'', JStr ''margin = price'')]
     = Inr sample_totals \<and>
   df_empty (frame_of_columns [''metric'', ''value'']) \<and>
   apply_calculation sample_pandas (frame_of_columns [''metric'', ''value''])
       [(''calculation'', JStr ''margin = price'')]
     = Inr (frame_of_columns [''metric'', ''value''])"
proof -
  let ?p1 = "[(''calculation'', JStr ''double value'')]"
  let ?p2 = "[(''calculation'', JStr ''margin = price'')]"
  have h0: "\<not> truthy (dict_get [] ''calculation'')" by code_simp
  have h1: "dict_get ?p1 ''calculation'' = JStr ''double value''" by code_simp
  have h2: "CHR ''='' \<notin> set ''double value''" by code_simp
  have h3: "dict_get ?p2 ''calculation'' = JStr ''margin = price''" by code_simp
  have h4: "pd_eval sample_pandas (calc_rhs ''margin = price'') sample_totals = Inl NameError"
    by code_simp
  have h5: "df_empty (frame_of_columns [''metric'', ''value''])" by code_simp
  from apply_calculation_safe [of "[]" sample_pandas sample_totals] h0
  have a: "apply_calculation sample_pandas sample_totals [] = Inr sample_totals" by blast
  from apply_calculation_safe [of ?p1 sample_pandas sample_totals "''double value''"] h1 h2
  have b: "apply_calculation sample_pandas sample_totals ?p1 = Inr sample_totals" by blast
  from apply_calculation_safe [of ?p2 sample_pandas sample_totals "''margin = price''" NameError] h3 h4
  have c: "apply_calculation sample_pandas sample_totals ?p2 = Inr sample_totals" by blast
  from apply_calculation_safe [of ?p2 sample_pandas "frame_of_columns [''metric'', ''value'']"
      "''margin = price''"] h3 h5
  have d: "apply_calculation sample_pandas (frame_of_columns [''metric'', ''value'']) ?p2
     = Inr (frame_of_columns [''metric'', ''value''])" by blast
  show ?thesis using a b c d h0 h1 h2 h3 h4 h5 by blast
qed

section \<open>The guard of the price suggestion\<close>

lemma nunique_synthetic_sales: "nunique (synthetic_sales p) = 3"
  by (simp add: nunique_def synthetic_sales_def)

text \<open>
  Claim C10. The three synthetic sales volumes of a product are pairwise distinct, so
  \<open>nunique\<close> is 3, the guard \<open>nunique < 2\<close> is never taken, and every suggestion comes from
  the regression path.
\<close>

theorem suggest_price_regression_only:
  "distinct (synthetic_sales p) \<and> nunique (synthetic_sales p) = 3 \<and>
   \<not> nunique (synthetic_sales p) < 2 \<and>
   suggest_price num products =
     map (\<lambda>q. regression num (synthetic_prices num q) (synthetic_sales q)) products"
proof -
  have "distinct (synthetic_sales p)" by (simp add: synthetic_sales_def)
  moreover have "suggest_one num q = regression num (synthetic_prices num q) (synthetic_sales q)" for q
    by (simp add: suggest_one_def nunique_synthetic_sales)
  ultimately show ?thesis
    by (simp add: suggest_price_def nunique_synthetic_sales)
qed

theorem suggest_price_regression_only_witness:
  "synthetic_sales \<lparr>price = 100 :: int, expense = 40, sales_volume = 50\<rparr> = [55, 50, 45] \<and>
   suggest_price sample_numerics [\<lparr>price = 100, expense = 40, sales_volume = 50\<rparr>]
     = [\<lparr>suggested_price = 95, predicted_sales = 55, expected_revenue = 5225\<rparr>]"
proof -
  let ?p = "\<lparr>price = 100 :: int, expense = 40, sales_volume = 50\<rparr>"
  have v: "map (\<lambda>q. regression sample_numerics (synthetic_prices sample_numerics q) (synthetic_sales q)) [?p]
     = [\<lparr>suggested_price = 95, predicted_sales = 55, expected_revenue = 5225\<rparr>]"
    by (simp add: sample_numerics_def synthetic_prices_def synthetic_sales_def)
  have s: "synthetic_sales ?p = [55, 50, 45]" by (simp add: synthetic_sales_def)
  from suggest_price_regression_only [of ?p sample_numerics "[?p]"] v s show ?thesis by simp
qed


end
